theory Spec2Isabelle
  imports Main "HOL-Library.Word" "HOL-Library.Sublist"
begin

unbundle bit_operations_syntax

section \<open>sampled.c: a daemon that logs the system time once per second\<close>

text \<open>
  The program consists of \<^verbatim>\<open>main\<close>, the signal handler \<^verbatim>\<open>_signal_handler\<close> and the
  logging loop \<^verbatim>\<open>_log_time\<close>. Everything it does is a call into libc or the kernel, so a
  process is modelled by the calls it has made so far, in order, together with the two
  pieces of program state the C code reads back: the global \<^verbatim>\<open>app_name\<close> and
  \<^verbatim>\<open>errno\<close>. What the operating system answers (return values, the value left in
  \<^verbatim>\<open>errno\<close>, the clock, the text of \<^verbatim>\<open>strerror\<close> and \<^verbatim>\<open>asctime\<close>) is not decided
  by the program; it is a parameter of the model, the record \<open>env\<close>.
\<close>

subsection \<open>Constants of the source and of the system headers\<close>

text \<open>Lines 44--48 and 52--56 of sampled.c.\<close>

definition OK :: int where "OK = 0"
definition ERR_FORK :: int where "ERR_FORK = 3"
definition ERR_SETSID :: int where "ERR_SETSID = 4"
definition ERR_CHDIR :: int where "ERR_CHDIR = 5"
definition ERR_WTF :: int where "ERR_WTF = 187"

definition ERROR_FORMAT :: "string \<Rightarrow> string" where
  "ERROR_FORMAT e = ''An error occurred. The error is: '' @ e"

definition LOG_INTERVAL :: nat where "LOG_INTERVAL = 1"

text \<open>
  Macros of \<^verbatim>\<open><signal.h>\<close>, \<^verbatim>\<open><syslog.h>\<close>, \<^verbatim>\<open><unistd.h>\<close> and \<^verbatim>\<open><sys/stat.h>\<close>, with
  their Linux values (the same on x86 and ARM, the two targets of the build notes).
\<close>

definition SIGHUP :: int where "SIGHUP = 1"
definition SIGTERM :: int where "SIGTERM = 15"

definition LOG_ERR :: int where "LOG_ERR = 3"
definition LOG_INFO :: int where "LOG_INFO = 6"
definition LOG_PID :: "32 word" where "LOG_PID = 0x01"
definition LOG_NDELAY :: "32 word" where "LOG_NDELAY = 0x08"
definition LOG_NOWAIT :: "32 word" where "LOG_NOWAIT = 0x10"
definition LOG_DAEMON :: "32 word" where "LOG_DAEMON = push_bit 3 3"

definition STDIN_FILENO :: int where "STDIN_FILENO = 0"
definition STDOUT_FILENO :: int where "STDOUT_FILENO = 1"
definition STDERR_FILENO :: int where "STDERR_FILENO = 2"

text \<open>\<^verbatim>\<open>mode_t\<close> is an unsigned 32-bit integer; the permission bits are octal 0400, 0200, 040, 04.\<close>

type_synonym mode_t = "32 word"

definition S_IRUSR :: mode_t where "S_IRUSR = 256"
definition S_IWUSR :: mode_t where "S_IWUSR = 128"
definition S_IRGRP :: mode_t where "S_IRGRP = 32"
definition S_IROTH :: mode_t where "S_IROTH = 4"

subsection \<open>Processes and their environment\<close>

text \<open>
  One constructor per library function the program calls, with the arguments it passes.
  \<open>Signal k\<close> is \<^verbatim>\<open>signal(k, _signal_handler)\<close>: the program installs no other handler.
  The message of \<open>Syslog\<close> is the text after format expansion, and the argument of
  \<open>Localtime\<close> is the time it converts. \<^verbatim>\<open>strerror\<close> and \<^verbatim>\<open>asctime\<close> only produce text.
\<close>

datatype call =
    Openlog string "32 word" "32 word"
  | Syslog int string
  | Closelog
  | Fork
  | Setsid
  | Close int
  | Umask mode_t
  | Chdir string
  | Signal int
  | Time
  | Localtime int
  | Sleep nat

record proc =
  app_name :: "string option"
  errno :: int
  calls :: "call list"

text \<open>The state in which \<^verbatim>\<open>main\<close> is entered: \<^verbatim>\<open>app_name\<close> is \<^verbatim>\<open>NULL\<close>, nothing called yet.\<close>

definition proc0 :: proc where
  "proc0 = \<lparr>app_name = None, errno = 0, calls = []\<rparr>"

text \<open>
  The answers of the operating system. \<^verbatim>\<open>pid_t\<close> and \<^verbatim>\<open>int\<close> results are only compared with
  constants, never computed with, so they are integers. \<open>clock n\<close> is what the \<open>n\<close>-th call
  of \<^verbatim>\<open>time\<close> stores (counting from 0), and \<open>asctime_local t\<close> is
  \<^verbatim>\<open>asctime(localtime(&t))\<close>.
\<close>

record env =
  fork_ret :: int
  fork_errno :: int
  setsid_ret :: int
  setsid_errno :: int
  chdir_ret :: int
  chdir_errno :: int
  strerror :: "int \<Rightarrow> string"
  clock :: "nat \<Rightarrow> int"
  asctime_local :: "int \<Rightarrow> string"

subsection \<open>The library calls\<close>

definition did :: "call \<Rightarrow> proc \<Rightarrow> proc" where
  "did c s = s\<lparr>calls := calls s @ [c]\<rparr>"

definition openlog :: "string \<Rightarrow> 32 word \<Rightarrow> 32 word \<Rightarrow> proc \<Rightarrow> proc" where
  "openlog ident option facility s = did (Openlog ident option facility) s"

definition syslog :: "int \<Rightarrow> string \<Rightarrow> proc \<Rightarrow> proc" where
  "syslog priority msg s = did (Syslog priority msg) s"

definition closelog :: "proc \<Rightarrow> proc" where
  "closelog s = did Closelog s"

definition fork :: "env \<Rightarrow> proc \<Rightarrow> int \<times> proc" where
  "fork e s = (fork_ret e, (did Fork s)\<lparr>errno := fork_errno e\<rparr>)"

definition setsid :: "env \<Rightarrow> proc \<Rightarrow> int \<times> proc" where
  "setsid e s = (setsid_ret e, (did Setsid s)\<lparr>errno := setsid_errno e\<rparr>)"

definition close_fd :: "int \<Rightarrow> proc \<Rightarrow> proc" where
  "close_fd fd s = did (Close fd) s"

definition umask :: "mode_t \<Rightarrow> proc \<Rightarrow> proc" where
  "umask m s = did (Umask m) s"

definition chdir :: "string \<Rightarrow> env \<Rightarrow> proc \<Rightarrow> int \<times> proc" where
  "chdir path e s = (chdir_ret e, (did (Chdir path) s)\<lparr>errno := chdir_errno e\<rparr>)"

definition signal :: "int \<Rightarrow> proc \<Rightarrow> proc" where
  "signal signum s = did (Signal signum) s"

text \<open>\<^verbatim>\<open>time(&rawtime)\<close>: the clock is read once more than it has been read so far.\<close>

definition time_reads :: "proc \<Rightarrow> nat" where
  "time_reads s = count_list (calls s) Time"

definition time :: "env \<Rightarrow> proc \<Rightarrow> int \<times> proc" where
  "time e s = (clock e (time_reads s), did Time s)"

definition localtime :: "int \<Rightarrow> proc \<Rightarrow> proc" where
  "localtime t s = did (Localtime t) s"

definition sleep :: "nat \<Rightarrow> proc \<Rightarrow> proc" where
  "sleep n s = did (Sleep n) s"

text \<open>
  \<^verbatim>\<open>strrchr(s, c)\<close> for a character \<open>c\<close> other than the terminating NUL: the offset of the
  last occurrence of \<open>c\<close> in \<open>s\<close>, or \<open>None\<close> for the null pointer when there is none.
  A C string is the list of its characters before the NUL.
\<close>

fun strrchr :: "string \<Rightarrow> char \<Rightarrow> nat option" where
  "strrchr [] c = None"
| "strrchr (x # xs) c =
     (case strrchr xs c of
        Some i \<Rightarrow> Some (Suc i)
      | None \<Rightarrow> if x = c then Some 0 else None)"

subsection \<open>What the calls made so far mean for the operating system\<close>

text \<open>The signals whose disposition is \<^verbatim>\<open>_signal_handler\<close>.\<close>

fun handled :: "call list \<Rightarrow> int list" where
  "handled [] = []"
| "handled (Signal k # cs) = k # handled cs"
| "handled (c # cs) = handled cs"

text \<open>
  The file-creation mask: the argument of the last \<^verbatim>\<open>umask\<close> call, or the inherited mask
  \<open>m0\<close>. A file created with requested mode \<open>mode\<close> gets the bits of \<open>mode\<close> that the mask
  does not have (POSIX \<^verbatim>\<open>open\<close>, \<^verbatim>\<open>creat\<close>).
\<close>

fun file_mask :: "mode_t \<Rightarrow> call list \<Rightarrow> mode_t" where
  "file_mask m0 [] = m0"
| "file_mask m0 (Umask m # cs) = file_mask m cs"
| "file_mask m0 (c # cs) = file_mask m0 cs"

definition created_mode :: "mode_t \<Rightarrow> mode_t \<Rightarrow> mode_t" where
  "created_mode cmask mode = mode AND NOT cmask"

text \<open>
  Whether the logging channel is open: \<^verbatim>\<open>openlog\<close> with \<^verbatim>\<open>LOG_NDELAY\<close> and \<^verbatim>\<open>syslog\<close> open
  it, \<^verbatim>\<open>closelog\<close> closes it.
\<close>

fun log_open :: "bool \<Rightarrow> call list \<Rightarrow> bool" where
  "log_open b [] = b"
| "log_open b (Openlog ident opt fac # cs) = log_open (b \<or> opt AND LOG_NDELAY \<noteq> 0) cs"
| "log_open b (Syslog p m # cs) = log_open True cs"
| "log_open b (Closelog # cs) = log_open False cs"
| "log_open b (c # cs) = log_open b cs"

subsection \<open>The signal handler (lines 72--84)\<close>

text \<open>
  A signal finds the interrupted code between two library calls or inside one. The
  handler is installed with plain \<^verbatim>\<open>signal\<close> and the program blocks no signal, so both
  happen.
\<close>

datatype point = Between | Inside call

text \<open>
  glibc serialises \<^verbatim>\<open>openlog\<close>, \<^verbatim>\<open>syslog\<close> and \<^verbatim>\<open>closelog\<close> on one lock, and \<^verbatim>\<open>localtime\<close>
  and the time stamp that \<^verbatim>\<open>syslog\<close> makes on another. Neither lock is recursive, and
  POSIX lists none of these functions as async-signal-safe. A handler that calls
  \<^verbatim>\<open>syslog\<close> or \<^verbatim>\<open>closelog\<close> while the code it interrupted is inside one of them waits
  for a lock that its own thread holds: the call never proceeds (\<open>None\<close>).
\<close>

fun holds_lock :: "point \<Rightarrow> bool" where
  "holds_lock Between = False"
| "holds_lock (Inside (Openlog ident opt fac)) = True"
| "holds_lock (Inside (Syslog p m)) = True"
| "holds_lock (Inside Closelog) = True"
| "holds_lock (Inside (Localtime t)) = True"
| "holds_lock (Inside c) = False"

definition from_handler :: "point \<Rightarrow> (proc \<Rightarrow> proc) \<Rightarrow> proc \<Rightarrow> proc option" where
  "from_handler pt f s = (if holds_lock pt then None else Some (f s))"

text \<open>
  A handler returns to the interrupted code, ends the process by \<^verbatim>\<open>exit\<close>, or stays
  blocked in a call.
\<close>

datatype handler_result = Returned proc | Exited proc int | Blocked proc

definition signal_handler :: "point \<Rightarrow> int \<Rightarrow> proc \<Rightarrow> handler_result" where
  "signal_handler pt signal_no s =
     (if signal_no = SIGHUP then Returned s
      else if signal_no = SIGTERM then
        (case from_handler pt (syslog LOG_INFO ''received SIGTERM - exiting.'') s of
           None \<Rightarrow> Blocked s
         | Some s1 \<Rightarrow>
             (case from_handler pt closelog s1 of
                None \<Rightarrow> Blocked s1
              | Some s2 \<Rightarrow> Exited s2 OK))
      else
        (case from_handler pt (syslog LOG_INFO ''received unhandled signal.'') s of
           None \<Rightarrow> Blocked s
         | Some s1 \<Rightarrow> Returned s1))"

text \<open>The record that the default case writes (line 82).\<close>

definition unhandled_record :: call where
  "unhandled_record = Syslog LOG_INFO ''received unhandled signal.''"

text \<open>
  Delivery of signal \<open>k\<close> by the kernel at point \<open>pt\<close>: the handler runs, with \<open>k\<close> as
  argument, when the disposition of \<open>k\<close> is the handler; otherwise the program's code is
  not involved (\<open>None\<close>).
\<close>

definition deliver :: "point \<Rightarrow> int \<Rightarrow> proc \<Rightarrow> handler_result option" where
  "deliver pt k s =
     (if k \<in> set (handled (calls s)) then Some (signal_handler pt k s) else None)"

subsection \<open>The logging loop (lines 86--97)\<close>

text \<open>The body of the loop, lines 88--95.\<close>

definition log_time_body :: "env \<Rightarrow> proc \<Rightarrow> proc" where
  "log_time_body e s =
     (let (rawtime, s1) = time e s;
          s2 = localtime rawtime s1;
          timeinfo = asctime_local e rawtime;
          s3 = syslog LOG_INFO (''Current system time is: '' @ timeinfo) s2
      in sleep LOG_INTERVAL s3)"

text \<open>
  \<^verbatim>\<open>while (1) { ... }\<close>: the condition is the constant 1, tested before every pass. The
  loop may run forever, so it is run on fuel, one unit per pass: \<open>Return s\<close> when the loop
  is left in state \<open>s\<close>, \<open>Running s\<close> when the fuel is spent and the loop is at its head
  again in state \<open>s\<close>.
\<close>

datatype loop_result = Return proc | Running proc

fun log_time :: "nat \<Rightarrow> env \<Rightarrow> proc \<Rightarrow> loop_result" where
  "log_time 0 e s = Running s"
| "log_time (Suc fuel) e s =
     (if (1::int) \<noteq> 0 then log_time fuel e (log_time_body e s) else Return s)"

subsection \<open>main (lines 100--169)\<close>

text \<open>Lines 105--111: the name under which the program logs.\<close>

definition derive_app_name :: "string \<Rightarrow> string" where
  "derive_app_name argv0 =
     (case strrchr argv0 (CHR ''/'') of
        Some i \<Rightarrow> drop (Suc i) argv0
      | None \<Rightarrow> argv0)"

text \<open>
  Lines 105--114: \<^verbatim>\<open>app_name\<close> is set, the log is opened and the startup record written.
\<close>

definition start_logging :: "string \<Rightarrow> proc" where
  "start_logging argv0 =
     (let name = derive_app_name argv0;
          s1 = proc0\<lparr>app_name := Some name\<rparr>;
          s2 = openlog name (LOG_PID OR LOG_NDELAY OR LOG_NOWAIT) LOG_DAEMON s1
      in syslog LOG_INFO (''Starting '' @ name) s2)"

text \<open>
  Lines 118--138, the fork step: \<^verbatim>\<open>fork\<close>, its error check, \<^verbatim>\<open>setsid\<close> and its check, and
  the exit of the parent. \<open>Inl (s, status)\<close> when \<^verbatim>\<open>main\<close> returns \<open>status\<close> there,
  \<open>Inr s\<close> when control goes on to line 142.
\<close>

definition fork_step :: "env \<Rightarrow> proc \<Rightarrow> (proc \<times> int) + proc" where
  "fork_step e s3 =
     (let (pid, s4) = fork e s3
      in if pid < 0 then
           Inl (syslog LOG_ERR (ERROR_FORMAT (strerror e (errno s4))) s4, ERR_FORK)
         else
           let (sid, s5) = setsid e s4
           in if sid < - 1 then
                Inl (syslog LOG_ERR (ERROR_FORMAT (strerror e (errno s5))) s5, ERR_SETSID)
              else if pid > 0 then Inl (s5, OK)
              else Inr s5)"

text \<open>
  Lines 142--160: the standard streams are closed, the mask is set, the directory is
  changed and the handlers are installed. \<open>Inr s\<close> when control reaches line 164.
\<close>

definition background_setup :: "env \<Rightarrow> proc \<Rightarrow> (proc \<times> int) + proc" where
  "background_setup e s5 =
     (let s6 = close_fd STDIN_FILENO s5;
          s7 = close_fd STDOUT_FILENO s6;
          s8 = close_fd STDERR_FILENO s7;
          s9 = umask (S_IRUSR OR S_IWUSR OR S_IRGRP OR S_IROTH) s8;
          (rc, s10) = chdir ''/'' e s9
      in if rc \<noteq> 0 then
           Inl (syslog LOG_ERR (ERROR_FORMAT (strerror e (errno s10))) s10, ERR_CHDIR)
         else
           let s11 = signal SIGHUP s10;
               s12 = signal SIGTERM s11
           in Inr s12)"

text \<open>Lines 105--160, everything in \<^verbatim>\<open>main\<close> before the call of \<^verbatim>\<open>_log_time\<close>.\<close>

definition daemonize :: "string \<Rightarrow> env \<Rightarrow> (proc \<times> int) + proc" where
  "daemonize argv0 e =
     (case fork_step e (start_logging argv0) of
        Inl r \<Rightarrow> Inl r
      | Inr s5 \<Rightarrow> background_setup e s5)"

text \<open>
  \<^verbatim>\<open>main\<close>, its loop run on \<open>fuel\<close>: \<open>Some (s, status)\<close> when it returns \<open>status\<close> in
  state \<open>s\<close>, \<open>None\<close> when it has not returned after \<open>fuel\<close> passes of the loop.
  Lines 164--168 follow the daemonization.
\<close>

definition main :: "nat \<Rightarrow> string \<Rightarrow> env \<Rightarrow> (proc \<times> int) option" where
  "main fuel argv0 e =
     (case daemonize argv0 e of
        Inl r \<Rightarrow> Some r
      | Inr s \<Rightarrow>
          (case log_time fuel e s of
             Running s' \<Rightarrow> None
           | Return s' \<Rightarrow> Some (s', ERR_WTF)))"

subsection \<open>Runs of the program\<close>

text \<open>
  The state of the process after \<^verbatim>\<open>main\<close> has returned or, when it reached the loop, after
  \<open>n\<close> iterations of the loop.
\<close>

definition progress :: "string \<Rightarrow> env \<Rightarrow> nat \<Rightarrow> proc" where
  "progress argv0 e n =
     (case daemonize argv0 e of
        Inl r \<Rightarrow> fst r
      | Inr s \<Rightarrow> (log_time_body e ^^ n) s)"

text \<open>
  A signal can arrive between any two calls, also while the handler runs. So the states
  in which the process can be are: those whose calls are an initial segment of the calls
  of \<^verbatim>\<open>main\<close> and its loop; and, when a signal is delivered to the handler in such a
  state, those between that state and the one in which the handler returns, exits or
  blocks. A handler that returns resumes the interrupted code.
\<close>

fun final_state :: "handler_result \<Rightarrow> proc" where
  "final_state (Returned s) = s"
| "final_state (Exited s status) = s"
| "final_state (Blocked s) = s"

inductive reachable :: "string \<Rightarrow> env \<Rightarrow> proc \<Rightarrow> bool" for argv0 :: string and e :: env where
  in_main: "prefix (calls s) (calls (progress argv0 e n)) \<Longrightarrow> reachable argv0 e s"
| in_handler: "reachable argv0 e s \<Longrightarrow> deliver pt k s = Some r \<Longrightarrow>
     prefix (calls s) (calls s') \<Longrightarrow> prefix (calls s') (calls (final_state r)) \<Longrightarrow>
     reachable argv0 e s'"

text \<open>
  After a successful \<^verbatim>\<open>fork\<close> two processes run the fork step from the same state: the
  parent, to which \<^verbatim>\<open>fork\<close> returned the child's pid, and the child, to which it returned 0.
  The survivors of the fork step are those that go on to line 142.
\<close>

definition survivors :: "string \<Rightarrow> env list \<Rightarrow> env list" where
  "survivors argv0 es = filter (\<lambda>e. \<not> isl (fork_step e (start_logging argv0))) es"

subsection \<open>Sample environments\<close>

definition strerror_linux :: "int \<Rightarrow> string" where
  "strerror_linux n =
     (if n = 1 then ''Operation not permitted''
      else if n = 11 then ''Resource temporarily unavailable''
      else if n = 13 then ''Permission denied''
      else ''Unknown error'')"

text \<open>
  An environment in which \<^verbatim>\<open>fork\<close>, \<^verbatim>\<open>setsid\<close> and \<^verbatim>\<open>chdir\<close> return \<open>f\<close>, \<open>sd\<close> and \<open>c\<close>, and
  leave \<^verbatim>\<open>EAGAIN\<close>, \<^verbatim>\<open>EPERM\<close> and \<^verbatim>\<open>EACCES\<close> in \<^verbatim>\<open>errno\<close> when they fail.
\<close>

definition sample_env :: "int \<Rightarrow> int \<Rightarrow> int \<Rightarrow> env" where
  "sample_env f sd c =
     \<lparr>fork_ret = f, fork_errno = (if f < 0 then 11 else 0),
      setsid_ret = sd, setsid_errno = (if sd < 0 then 1 else 0),
      chdir_ret = c, chdir_errno = (if c \<noteq> 0 then 13 else 0),
      strerror = strerror_linux,
      clock = (\<lambda>n. 1625089748 + int n),
      asctime_local = (\<lambda>t. ''Wed Jun 30 21:49:08 2021'' @ [CHR 0x0A])\<rparr>"

text \<open>The child of \<^verbatim>\<open>./sampled\<close> at line 164, all three calls having succeeded.\<close>

definition sample_running :: proc where
  "sample_running =
     \<lparr>app_name = Some ''sampled'', errno = 0,
      calls = [Openlog ''sampled'' 25 24, Syslog 6 ''Starting sampled'', Fork, Setsid,
               Close 0, Close 1, Close 2, Umask 420, Chdir ''/'', Signal 1, Signal 15]\<rparr>"

text \<open>
  The same process in the first pass of the loop, at line 94: the clock has been read
  and converted, and the call of \<^verbatim>\<open>syslog\<close> with the record \<open>sample_record\<close> is next.
\<close>

definition sample_at_line_94 :: proc where
  "sample_at_line_94 =
     sample_running\<lparr>calls := calls sample_running @ [Time, Localtime 1625089748]\<rparr>"

definition sample_record :: call where
  "sample_record =
     Syslog 6 (''Current system time is: Wed Jun 30 21:49:08 2021'' @ [CHR 0x0A])"

section \<open>Properties\<close>

subsection \<open>Unfolding the model\<close>

lemmas status_defs = OK_def ERR_FORK_def ERR_SETSID_def ERR_CHDIR_def ERR_WTF_def

lemmas call_defs =
  did_def openlog_def syslog_def closelog_def fork_def setsid_def close_fd_def umask_def
  chdir_def signal_def time_def localtime_def sleep_def

lemmas header_defs =
  LOG_PID_def LOG_NDELAY_def LOG_NOWAIT_def LOG_DAEMON_def LOG_INFO_def LOG_ERR_def
  STDIN_FILENO_def STDOUT_FILENO_def STDERR_FILENO_def
  S_IRUSR_def S_IWUSR_def S_IRGRP_def S_IROTH_def SIGHUP_def SIGTERM_def

lemma start_logging_eq:
  "start_logging argv0 =
     \<lparr>app_name = Some (derive_app_name argv0), errno = 0,
      calls = [Openlog (derive_app_name argv0) (LOG_PID OR LOG_NDELAY OR LOG_NOWAIT) LOG_DAEMON,
               Syslog LOG_INFO (''Starting '' @ derive_app_name argv0)]\<rparr>"
  by (simp add: start_logging_def proc0_def call_defs Let_def)

text \<open>The four ways through the fork step.\<close>

lemma fork_step_failed:
  "fork_ret e < 0 \<Longrightarrow>
   fork_step e s =
     Inl (s\<lparr>calls := calls s @ [Fork, Syslog LOG_ERR (ERROR_FORMAT (strerror e (fork_errno e)))],
            errno := fork_errno e\<rparr>, ERR_FORK)"
  by (simp add: fork_step_def call_defs)

lemma fork_step_setsid:
  "0 \<le> fork_ret e \<Longrightarrow> setsid_ret e < - 1 \<Longrightarrow>
   fork_step e s =
     Inl (s\<lparr>calls := calls s @ [Fork, Setsid,
              Syslog LOG_ERR (ERROR_FORMAT (strerror e (setsid_errno e)))],
            errno := setsid_errno e\<rparr>, ERR_SETSID)"
  by (simp add: fork_step_def call_defs)

lemma fork_step_parent:
  "0 < fork_ret e \<Longrightarrow> - 1 \<le> setsid_ret e \<Longrightarrow>
   fork_step e s = Inl (s\<lparr>calls := calls s @ [Fork, Setsid], errno := setsid_errno e\<rparr>, OK)"
  by (simp add: fork_step_def call_defs)

lemma fork_step_child:
  "fork_ret e = 0 \<Longrightarrow> - 1 \<le> setsid_ret e \<Longrightarrow>
   fork_step e s = Inr (s\<lparr>calls := calls s @ [Fork, Setsid], errno := setsid_errno e\<rparr>)"
  by (simp add: fork_step_def call_defs)

text \<open>The two ways through the rest of the daemonization.\<close>

lemma background_setup_chdir_failed:
  "chdir_ret e \<noteq> 0 \<Longrightarrow>
   background_setup e s =
     Inl (s\<lparr>calls := calls s @
              [Close STDIN_FILENO, Close STDOUT_FILENO, Close STDERR_FILENO,
               Umask (S_IRUSR OR S_IWUSR OR S_IRGRP OR S_IROTH), Chdir ''/'',
               Syslog LOG_ERR (ERROR_FORMAT (strerror e (chdir_errno e)))],
            errno := chdir_errno e\<rparr>, ERR_CHDIR)"
  by (simp add: background_setup_def call_defs Let_def)

lemma background_setup_done:
  "chdir_ret e = 0 \<Longrightarrow>
   background_setup e s =
     Inr (s\<lparr>calls := calls s @
              [Close STDIN_FILENO, Close STDOUT_FILENO, Close STDERR_FILENO,
               Umask (S_IRUSR OR S_IWUSR OR S_IRGRP OR S_IROTH), Chdir ''/'',
               Signal SIGHUP, Signal SIGTERM],
            errno := chdir_errno e\<rparr>)"
  by (simp add: background_setup_def call_defs Let_def)

text \<open>The statuses \<^verbatim>\<open>main\<close> can return before the loop.\<close>

lemma fork_step_status:
  "fork_step e s = Inl (s', st) \<Longrightarrow> st \<in> {ERR_FORK, ERR_SETSID, OK}"
  by (auto simp: fork_step_def call_defs split: if_splits)

lemma background_setup_status:
  "background_setup e s = Inl (s', st) \<Longrightarrow> st = ERR_CHDIR"
  by (auto simp: background_setup_def call_defs Let_def split: if_splits)

lemma daemonize_status:
  "daemonize argv0 e = Inl (s', st) \<Longrightarrow> st \<in> {ERR_FORK, ERR_SETSID, OK, ERR_CHDIR}"
  using fork_step_status background_setup_status
  by (fastforce simp: daemonize_def split: sum.splits)

text \<open>With any fuel the loop spends it all: one pass per unit, and no return.\<close>

lemma log_time_running: "log_time fuel e s = Running ((log_time_body e ^^ fuel) s)"
proof (induction fuel arbitrary: s)
  case 0
  show ?case by simp
next
  case (Suc fuel)
  have "log_time (Suc fuel) e s = log_time fuel e (log_time_body e s)" by simp
  also have "\<dots> = Running ((log_time_body e ^^ fuel) (log_time_body e s))" by (rule Suc.IH)
  also have "(log_time_body e ^^ fuel) (log_time_body e s) = (log_time_body e ^^ Suc fuel) s"
    by (simp add: funpow_swap1)
  finally show ?case .
qed

lemma main_eq:
  "main fuel argv0 e = (case daemonize argv0 e of Inl r \<Rightarrow> Some r | Inr s \<Rightarrow> None)"
  by (simp add: main_def log_time_running split: sum.splits)

lemma sample_name: "derive_app_name ''./sampled'' = ''sampled''"
  by (simp add: derive_app_name_def)

lemma daemonize_sample: "daemonize ''./sampled'' (sample_env 0 4242 0) = Inr sample_running"
  by (simp add: daemonize_def fork_step_def background_setup_def call_defs start_logging_eq
      sample_name sample_env_def sample_running_def Let_def header_defs)

subsection \<open>The session-creation check\<close>

text \<open>
  C1 (the code departs from it): a failing \<^verbatim>\<open>setsid\<close> is to be logged and to end the
  process with status \<open>ERR_SETSID\<close>. Line 129 tests \<^verbatim>\<open>setsid() < -1\<close>, and the error
  indicator \<open>-1\<close> is not below \<open>-1\<close>. In the parent started from a shell, where \<^verbatim>\<open>fork\<close>
  returned the pid 4242 and \<^verbatim>\<open>setsid\<close> returns \<open>-1\<close> with \<^verbatim>\<open>EPERM\<close>, \<^verbatim>\<open>main\<close> writes no
  error record and returns \<open>OK\<close>.
\<close>

theorem setsid_failure_ignored:
  "setsid_ret (sample_env 4242 (- 1) 0) = - 1 \<and>
   main fuel ''./sampled'' (sample_env 4242 (- 1) 0) =
     Some (\<lparr>app_name = Some ''sampled'', errno = 1,
            calls = [Openlog ''sampled'' 25 24, Syslog 6 ''Starting sampled'', Fork, Setsid]\<rparr>,
           OK) \<and>
   OK \<noteq> ERR_SETSID"
proof -
  have "fork_step (sample_env 4242 (- 1) 0) (start_logging ''./sampled'') =
    Inl (\<lparr>app_name = Some ''sampled'', errno = 1,
          calls = [Openlog ''sampled'' 25 24, Syslog 6 ''Starting sampled'', Fork, Setsid]\<rparr>, OK)"
    by (simp add: fork_step_def call_defs start_logging_eq sample_name sample_env_def
        LOG_PID_def LOG_NDELAY_def LOG_NOWAIT_def LOG_DAEMON_def LOG_INFO_def)
  then show ?thesis
    by (simp add: main_def daemonize_def sample_env_def OK_def ERR_SETSID_def)
qed

text \<open>For every result that \<^verbatim>\<open>setsid\<close> can have, the branch of line 130 is dead.\<close>

lemma setsid_error_branch_dead:
  "- 1 \<le> setsid_ret e \<Longrightarrow> main fuel argv0 e \<noteq> Some (s, ERR_SETSID)"
proof
  assume a: "- 1 \<le> setsid_ret e" and m: "main fuel argv0 e = Some (s, ERR_SETSID)"
  from m have d: "daemonize argv0 e = Inl (s, ERR_SETSID)"
    by (auto simp: main_eq split: sum.splits)
  show False
  proof (cases "fork_step e (start_logging argv0)")
    case (Inl r)
    with d have "fork_step e (start_logging argv0) = Inl (s, ERR_SETSID)"
      by (simp add: daemonize_def)
    with a show False
      by (auto simp: fork_step_def call_defs status_defs split: if_splits)
  next
    case (Inr s5)
    with d have "background_setup e s5 = Inl (s, ERR_SETSID)"
      by (simp add: daemonize_def)
    then show False
      using background_setup_status [of e s5 s ERR_SETSID] by (simp add: status_defs)
  qed
qed

subsection \<open>The log tag\<close>

lemma strrchr_None: "c \<notin> set s \<Longrightarrow> strrchr s c = None"
  by (induction s) auto

lemma strrchr_last: "c \<notin> set q \<Longrightarrow> strrchr (p @ c # q) c = Some (length p)"
  by (induction p) (auto simp: strrchr_None)

text \<open>
  C2: for every \<^verbatim>\<open>argv[0]\<close>, the log tag is the whole argument when it has no \<open>/\<close>, and
  it is what follows the final \<open>/\<close> when it has one: if the argument is \<open>p\<close>, a \<open>/\<close>, and
  a rest \<open>q\<close> without \<open>/\<close>, the tag is \<open>q\<close>.
\<close>

theorem derive_app_name_last_component:
  "(CHR ''/'' \<notin> set argv0 \<longrightarrow> derive_app_name argv0 = argv0) \<and>
   (\<forall>p q. argv0 = p @ CHR ''/'' # q \<and> CHR ''/'' \<notin> set q \<longrightarrow> derive_app_name argv0 = q)"
  by (auto simp: derive_app_name_def strrchr_None strrchr_last)

theorem derive_app_name_last_component_witness:
  "CHR ''/'' \<notin> set ''sampled'' \<and> derive_app_name ''sampled'' = ''sampled'' \<and>
   ''/usr/sbin/sampled'' = ''/usr/sbin'' @ CHR ''/'' # ''sampled'' \<and>
   derive_app_name ''/usr/sbin/sampled'' = ''sampled''"
proof -
  have a: "CHR ''/'' \<notin> set ''sampled''" by simp
  have b: "''/usr/sbin/sampled'' = ''/usr/sbin'' @ CHR ''/'' # ''sampled''" by simp
  from derive_app_name_last_component [of "''sampled''"] a
  have c: "derive_app_name ''sampled'' = ''sampled''" by blast
  from derive_app_name_last_component [of "''/usr/sbin/sampled''"] a b
  have d: "derive_app_name ''/usr/sbin/sampled'' = ''sampled''" by blast
  from a b c d show ?thesis by blast
qed

subsection \<open>The fork step\<close>

text \<open>
  C3: when \<^verbatim>\<open>fork\<close> returns a positive pid, and \<^verbatim>\<open>setsid\<close> returns what it can return (a
  session id or \<open>-1\<close>), \<^verbatim>\<open>main\<close> returns \<open>OK\<close> in the parent after exactly four calls:
  \<^verbatim>\<open>openlog\<close>, the startup record, \<^verbatim>\<open>fork\<close> and \<^verbatim>\<open>setsid\<close>. No stream is closed, no mask
  set, no directory changed, no handler installed, and the loop is not entered. Of the
  parent and the child, the child alone goes on after the fork step.
\<close>

theorem parent_exits_OK_after_fork:
  assumes "0 < fork_ret pe" and "- 1 \<le> setsid_ret pe"
    and "fork_ret ce = 0" and "- 1 \<le> setsid_ret ce"
  shows "main fuel argv0 pe =
     Some (\<lparr>app_name = Some (derive_app_name argv0), errno = setsid_errno pe,
            calls = [Openlog (derive_app_name argv0) (LOG_PID OR LOG_NDELAY OR LOG_NOWAIT) LOG_DAEMON,
                     Syslog LOG_INFO (''Starting '' @ derive_app_name argv0),
                     Fork, Setsid]\<rparr>,
           OK) \<and>
     survivors argv0 [pe, ce] = [ce]"
proof -
  from assms(1,2) have p: "main fuel argv0 pe =
     Some (\<lparr>app_name = Some (derive_app_name argv0), errno = setsid_errno pe,
            calls = [Openlog (derive_app_name argv0) (LOG_PID OR LOG_NDELAY OR LOG_NOWAIT) LOG_DAEMON,
                     Syslog LOG_INFO (''Starting '' @ derive_app_name argv0),
                     Fork, Setsid]\<rparr>,
           OK)"
    by (simp add: main_def daemonize_def fork_step_parent start_logging_eq)
  from assms have "survivors argv0 [pe, ce] = [ce]"
    by (simp add: survivors_def fork_step_parent fork_step_child)
  with p show ?thesis by simp
qed

theorem parent_exits_OK_after_fork_witness:
  "0 < fork_ret (sample_env 4242 (- 1) 0) \<and> - 1 \<le> setsid_ret (sample_env 4242 (- 1) 0) \<and>
   fork_ret (sample_env 0 4242 0) = 0 \<and> - 1 \<le> setsid_ret (sample_env 0 4242 0) \<and>
   main 3 ''./sampled'' (sample_env 4242 (- 1) 0) =
     Some (\<lparr>app_name = Some ''sampled'', errno = 1,
            calls = [Openlog ''sampled'' 25 24, Syslog 6 ''Starting sampled'', Fork, Setsid]\<rparr>,
           0) \<and>
   survivors ''./sampled'' [sample_env 4242 (- 1) 0, sample_env 0 4242 0] = [sample_env 0 4242 0]"
proof -
  have h1: "0 < fork_ret (sample_env 4242 (- 1) 0)" by (simp add: sample_env_def)
  have h2: "- 1 \<le> setsid_ret (sample_env 4242 (- 1) 0)" by (simp add: sample_env_def)
  have h3: "fork_ret (sample_env 0 4242 0) = 0" by (simp add: sample_env_def)
  have h4: "- 1 \<le> setsid_ret (sample_env 0 4242 0)" by (simp add: sample_env_def)
  have e: "setsid_errno (sample_env 4242 (- 1) 0) = 1" by (simp add: sample_env_def)
  show ?thesis
    using h1 h2 h3 h4 parent_exits_OK_after_fork [OF h1 h2 h3 h4, of 3 "''./sampled''"]
    by (simp add: sample_name e OK_def LOG_PID_def LOG_NDELAY_def LOG_NOWAIT_def LOG_DAEMON_def
        LOG_INFO_def)
qed

text \<open>
  C5: when \<^verbatim>\<open>fork\<close> returns a negative value, \<^verbatim>\<open>main\<close> writes one error record holding
  \<^verbatim>\<open>strerror\<close> of the \<^verbatim>\<open>errno\<close> that \<^verbatim>\<open>fork\<close> left, and returns \<open>ERR_FORK\<close>. Nothing is
  called after that record: no \<^verbatim>\<open>setsid\<close>, no later step.
\<close>

theorem fork_failure_exits_ERR_FORK:
  "fork_ret e < 0 \<Longrightarrow>
   main fuel argv0 e =
     Some (\<lparr>app_name = Some (derive_app_name argv0), errno = fork_errno e,
            calls = [Openlog (derive_app_name argv0) (LOG_PID OR LOG_NDELAY OR LOG_NOWAIT) LOG_DAEMON,
                     Syslog LOG_INFO (''Starting '' @ derive_app_name argv0),
                     Fork,
                     Syslog LOG_ERR (ERROR_FORMAT (strerror e (fork_errno e)))]\<rparr>,
           ERR_FORK)"
  by (simp add: main_def daemonize_def fork_step_failed start_logging_eq)

theorem fork_failure_exits_ERR_FORK_witness:
  "fork_ret (sample_env (- 1) 0 0) < 0 \<and>
   main 3 ''./sampled'' (sample_env (- 1) 0 0) =
     Some (\<lparr>app_name = Some ''sampled'', errno = 11,
            calls = [Openlog ''sampled'' 25 24,
                     Syslog 6 ''Starting sampled'',
                     Fork,
                     Syslog 3 ''An error occurred. The error is: Resource temporarily unavailable'']\<rparr>,
           3)"
proof -
  have h: "fork_ret (sample_env (- 1) 0 0) < 0" by (simp add: sample_env_def)
  show ?thesis
    using h fork_failure_exits_ERR_FORK [OF h, of 3 "''./sampled''"]
    by (simp add: sample_name sample_env_def strerror_linux_def ERROR_FORMAT_def ERR_FORK_def
        LOG_PID_def LOG_NDELAY_def LOG_NOWAIT_def LOG_DAEMON_def LOG_INFO_def LOG_ERR_def)
qed

subsection \<open>The rest of the daemonization\<close>

text \<open>
  C6: in the child (\<^verbatim>\<open>fork\<close> returned 0, \<^verbatim>\<open>setsid\<close> returned a session id or \<open>-1\<close>), when
  \<^verbatim>\<open>chdir\<close> returns a non-zero value, \<^verbatim>\<open>main\<close> writes one error record holding
  \<^verbatim>\<open>strerror\<close> of the \<^verbatim>\<open>errno\<close> that \<^verbatim>\<open>chdir\<close> left, and returns \<open>ERR_CHDIR\<close>. No handler
  has been installed and the loop has not run: the clock is never read.
\<close>

theorem chdir_failure_exits_ERR_CHDIR:
  "fork_ret e = 0 \<Longrightarrow> - 1 \<le> setsid_ret e \<Longrightarrow> chdir_ret e \<noteq> 0 \<Longrightarrow>
   main fuel argv0 e =
     Some (\<lparr>app_name = Some (derive_app_name argv0), errno = chdir_errno e,
            calls = [Openlog (derive_app_name argv0) (LOG_PID OR LOG_NDELAY OR LOG_NOWAIT) LOG_DAEMON,
                     Syslog LOG_INFO (''Starting '' @ derive_app_name argv0),
                     Fork, Setsid,
                     Close STDIN_FILENO, Close STDOUT_FILENO, Close STDERR_FILENO,
                     Umask (S_IRUSR OR S_IWUSR OR S_IRGRP OR S_IROTH), Chdir ''/'',
                     Syslog LOG_ERR (ERROR_FORMAT (strerror e (chdir_errno e)))]\<rparr>,
           ERR_CHDIR)"
  by (simp add: main_def daemonize_def fork_step_child background_setup_chdir_failed
      start_logging_eq)

theorem chdir_failure_exits_ERR_CHDIR_witness:
  "fork_ret (sample_env 0 4242 (- 1)) = 0 \<and> - 1 \<le> setsid_ret (sample_env 0 4242 (- 1)) \<and>
   chdir_ret (sample_env 0 4242 (- 1)) \<noteq> 0 \<and>
   main 3 ''./sampled'' (sample_env 0 4242 (- 1)) =
     Some (\<lparr>app_name = Some ''sampled'', errno = 13,
            calls = [Openlog ''sampled'' 25 24,
                     Syslog 6 ''Starting sampled'',
                     Fork, Setsid, Close 0, Close 1, Close 2, Umask 420, Chdir ''/'',
                     Syslog 3 ''An error occurred. The error is: Permission denied'']\<rparr>,
           5)"
proof -
  have h1: "fork_ret (sample_env 0 4242 (- 1)) = 0" by (simp add: sample_env_def)
  have h2: "- 1 \<le> setsid_ret (sample_env 0 4242 (- 1))" by (simp add: sample_env_def)
  have h3: "chdir_ret (sample_env 0 4242 (- 1)) \<noteq> 0" by (simp add: sample_env_def)
  show ?thesis
    using h1 h2 h3 chdir_failure_exits_ERR_CHDIR [OF h1 h2 h3, of 3 "''./sampled''"]
    by (simp add: sample_name sample_env_def strerror_linux_def ERROR_FORMAT_def ERR_CHDIR_def
        LOG_PID_def LOG_NDELAY_def LOG_NOWAIT_def LOG_DAEMON_def LOG_INFO_def LOG_ERR_def
        STDIN_FILENO_def STDOUT_FILENO_def STDERR_FILENO_def
        S_IRUSR_def S_IWUSR_def S_IRGRP_def S_IROTH_def)
qed

text \<open>
  C7 (the code departs from it): new files are to get owner read/write and group/other
  read, octal 0644. Line 148 passes these permission bits to \<^verbatim>\<open>umask\<close>, which takes the
  bits to remove. In the child that reaches the loop the mask is 420 (octal 0644), and a
  file created with the usual requested mode 438 (octal 0666) gets mode 18 (octal 0022):
  write permission for group and others, nothing for the owner.
\<close>

theorem umask_leaves_mode_022:
  "daemonize ''./sampled'' (sample_env 0 4242 0) = Inr sample_running \<and>
   file_mask m0 (calls sample_running) = 420 \<and>
   created_mode (file_mask m0 (calls sample_running)) 438 = 18 \<and>
   created_mode (file_mask m0 (calls sample_running)) 438 \<noteq> 420"
proof -
  have a: "file_mask m0 (calls sample_running) = 420"
    by (simp add: sample_running_def)
  have b: "created_mode 420 438 = 18" by (simp add: created_mode_def)
  show ?thesis using a b by (simp add: daemonize_sample)
qed

subsection \<open>The logging loop\<close>

lemma calls_log_time_body:
  "calls (log_time_body e s) =
     calls s @ [Time,
                Localtime (clock e (time_reads s)),
                Syslog LOG_INFO (''Current system time is: '' @ asctime_local e (clock e (time_reads s))),
                Sleep LOG_INTERVAL]"
  by (simp add: log_time_body_def call_defs)

lemma time_reads_iterations:
  "time_reads ((log_time_body e ^^ n) s) = time_reads s + n"
  by (induction n) (simp_all add: calls_log_time_body time_reads_def)

text \<open>
  C9: \<^verbatim>\<open>_log_time\<close> does not return, from any state: whatever the number of passes
  allowed, the loop makes that many passes of its body and is then at its head again,
  not left. Pass number \<open>n + 1\<close> reads the clock, converts the time, writes one
  informational record with the rendering of that time and sleeps one second, in this
  order. So \<^verbatim>\<open>main\<close> returns exactly when the daemonization returns, and never
  \<open>ERR_WTF\<close>.
\<close>

theorem log_time_never_returns:
  "log_time fuel e s = Running ((log_time_body e ^^ fuel) s) \<and>
   calls ((log_time_body e ^^ Suc n) s) =
     calls ((log_time_body e ^^ n) s) @
       [Time,
        Localtime (clock e (time_reads s + n)),
        Syslog LOG_INFO (''Current system time is: '' @ asctime_local e (clock e (time_reads s + n))),
        Sleep 1] \<and>
   main fuel argv0 e = (case daemonize argv0 e of Inl r \<Rightarrow> Some r | Inr s0 \<Rightarrow> None) \<and>
   map_option snd (main fuel argv0 e) \<noteq> Some ERR_WTF"
proof -
  have a: "calls ((log_time_body e ^^ Suc n) s) =
     calls ((log_time_body e ^^ n) s) @
       [Time,
        Localtime (clock e (time_reads s + n)),
        Syslog LOG_INFO (''Current system time is: '' @ asctime_local e (clock e (time_reads s + n))),
        Sleep 1]"
    by (simp add: calls_log_time_body time_reads_iterations LOG_INTERVAL_def)
  have b: "map_option snd (main fuel argv0 e) \<noteq> Some ERR_WTF"
    using daemonize_status [of argv0 e]
    by (auto simp: main_eq status_defs split: sum.splits)
  from a b show ?thesis
    using log_time_running [of fuel e s] main_eq [of fuel argv0 e] by blast
qed

subsection \<open>The signal handler\<close>

lemma log_open_closed: "log_open b (cs @ [Syslog p m, Closelog]) = False"
  by (induction b cs rule: log_open.induct) simp_all

text \<open>
  When the interrupted code holds none of the locks, the \<open>SIGTERM\<close> case writes its
  record, calls \<^verbatim>\<open>closelog\<close> and exits with \<open>OK\<close>, in this order.
\<close>

lemma sigterm_completes_without_lock:
  "\<not> holds_lock pt \<Longrightarrow>
   signal_handler pt SIGTERM s =
     Exited (s\<lparr>calls := calls s @ [Syslog LOG_INFO ''received SIGTERM - exiting.'', Closelog]\<rparr>) OK
   \<and> log_open b (calls s @ [Syslog LOG_INFO ''received SIGTERM - exiting.'', Closelog]) = False"
  by (simp add: signal_handler_def from_handler_def SIGHUP_def SIGTERM_def call_defs
      log_open_closed)

lemma sample_first_pass:
  "calls (progress ''./sampled'' (sample_env 0 4242 0) 1) =
     calls sample_at_line_94 @ [sample_record, Sleep 1]"
proof -
  have "progress ''./sampled'' (sample_env 0 4242 0) 1 =
      log_time_body (sample_env 0 4242 0) sample_running"
    by (simp add: progress_def daemonize_sample)
  then have "calls (progress ''./sampled'' (sample_env 0 4242 0) 1) =
      calls (log_time_body (sample_env 0 4242 0) sample_running)"
    by (rule arg_cong)
  also have "\<dots> = calls sample_at_line_94 @ [sample_record, Sleep 1]"
    by (simp add: calls_log_time_body sample_at_line_94_def sample_record_def sample_env_def
        sample_running_def time_reads_def LOG_INFO_def LOG_INTERVAL_def)
  finally show ?thesis .
qed

text \<open>
  C4 (the code departs from it): on \<open>SIGTERM\<close> the handler is to write the shutdown
  record, close the logging channel and exit with \<open>OK\<close>. The handler calls \<^verbatim>\<open>syslog\<close>,
  which is not async-signal-safe, and line 160 installs it with plain \<^verbatim>\<open>signal\<close>, so it
  can run while line 94 is inside \<^verbatim>\<open>syslog\<close>. In the first pass of the loop of the
  sample child, the call after the state \<open>sample_at_line_94\<close> is that \<^verbatim>\<open>syslog\<close>; a
  \<open>SIGTERM\<close> delivered inside it reaches the handler, and the handler stays blocked in
  its own \<^verbatim>\<open>syslog\<close>: it adds no call, so there is no record, no \<^verbatim>\<open>closelog\<close> and no exit.
\<close>

theorem sigterm_inside_syslog_blocks:
  "calls (progress ''./sampled'' (sample_env 0 4242 0) 1) =
     calls sample_at_line_94 @ [sample_record, Sleep 1] \<and>
   deliver (Inside sample_record) SIGTERM sample_at_line_94 = Some (Blocked sample_at_line_94) \<and>
   Syslog LOG_INFO ''received SIGTERM - exiting.'' \<notin> set (calls sample_at_line_94) \<and>
   Closelog \<notin> set (calls sample_at_line_94)"
proof -
  have a: "deliver (Inside sample_record) SIGTERM sample_at_line_94 =
      Some (Blocked sample_at_line_94)"
    by (simp add: deliver_def signal_handler_def from_handler_def sample_record_def
        sample_at_line_94_def sample_running_def SIGHUP_def SIGTERM_def)
  have b: "Syslog LOG_INFO ''received SIGTERM - exiting.'' \<notin> set (calls sample_at_line_94)"
    by (simp add: sample_at_line_94_def sample_running_def LOG_INFO_def)
  have c: "Closelog \<notin> set (calls sample_at_line_94)"
    by (simp add: sample_at_line_94_def sample_running_def)
  from sample_first_pass a b c show ?thesis by blast
qed

text \<open>
  C8: called with \<open>SIGHUP\<close>, wherever the signal found the interrupted code, the handler
  returns to it and leaves the process as it was: no call is made, so no record is
  written and the logging channel is not touched.
\<close>

theorem sighup_changes_nothing:
  "signal_handler pt SIGHUP s = Returned s"
  by (simp add: signal_handler_def)

subsection \<open>Which signals reach the handler\<close>

lemma handled_append: "handled (xs @ ys) = handled xs @ handled ys"
  by (induction xs rule: handled.induct) simp_all

lemma handled_prefix: "prefix xs ys \<Longrightarrow> set (handled xs) \<subseteq> set (handled ys)"
  by (auto simp: prefix_def handled_append)

lemma handled_iterations:
  "handled (calls ((log_time_body e ^^ n) s)) = handled (calls s)"
  by (induction n) (simp_all add: calls_log_time_body handled_append)

lemma handled_start_logging: "handled (calls (start_logging argv0)) = []"
  by (simp add: start_logging_eq)

lemma handled_fork_step:
  "fork_step e s = Inl (s', st) \<Longrightarrow> handled (calls s') = handled (calls s)"
  "fork_step e s = Inr s'' \<Longrightarrow> handled (calls s'') = handled (calls s)"
  by (auto simp: fork_step_def call_defs handled_append split: if_splits)

lemma handled_background_setup:
  "background_setup e s = Inl (s', st) \<Longrightarrow> handled (calls s') = handled (calls s)"
  "background_setup e s = Inr s'' \<Longrightarrow> handled (calls s'') = handled (calls s) @ [SIGHUP, SIGTERM]"
  by (auto simp: background_setup_def call_defs Let_def handled_append split: if_splits)

lemma handled_daemonize:
  "daemonize argv0 e = Inl (s', st) \<Longrightarrow> handled (calls s') = []"
  "daemonize argv0 e = Inr s'' \<Longrightarrow> handled (calls s'') = [SIGHUP, SIGTERM]"
  using handled_fork_step [of e "start_logging argv0"] handled_background_setup [of e]
  by (auto simp: daemonize_def handled_start_logging split: sum.splits)

lemma handled_progress:
  "set (handled (calls (progress argv0 e n))) \<subseteq> {SIGHUP, SIGTERM}"
proof (cases "daemonize argv0 e")
  case (Inl r)
  then show ?thesis
    using handled_daemonize(1) [of argv0 e "fst r" "snd r"] by (simp add: progress_def)
next
  case (Inr s)
  then show ?thesis
    using handled_daemonize(2) [of argv0 e s] by (simp add: progress_def handled_iterations)
qed

lemma handled_signal_handler:
  "handled (calls (final_state (signal_handler pt k s))) = handled (calls s)"
  by (simp add: signal_handler_def from_handler_def call_defs handled_append)

lemma handled_reachable:
  "reachable argv0 e s \<Longrightarrow> set (handled (calls s)) \<subseteq> {SIGHUP, SIGTERM}"
proof (induction rule: reachable.induct)
  case (in_main s n)
  then show ?case
    using handled_prefix handled_progress by blast
next
  case (in_handler s pt k r s')
  from in_handler.hyps(2) have "r = signal_handler pt k s"
    by (auto simp: deliver_def split: if_splits)
  then have "handled (calls (final_state r)) = handled (calls s)"
    by (simp add: handled_signal_handler)
  with in_handler.hyps(4) in_handler.IH show ?case
    using handled_prefix by fastforce
qed

lemma syslog_changes: "syslog p m s \<noteq> s"
proof
  assume "syslog p m s = s"
  then have "calls (syslog p m s) = calls s" by simp
  then show False by (simp add: call_defs)
qed

text \<open>The record of the default case is in no reachable state.\<close>

lemma unhandled_start_logging: "unhandled_record \<notin> set (calls (start_logging argv0))"
  by (simp add: start_logging_eq unhandled_record_def)

lemma unhandled_fork_step:
  "fork_step e s = Inl (s', st) \<Longrightarrow> unhandled_record \<in> set (calls s') \<Longrightarrow> unhandled_record \<in> set (calls s)"
  "fork_step e s = Inr s'' \<Longrightarrow> unhandled_record \<in> set (calls s'') \<Longrightarrow> unhandled_record \<in> set (calls s)"
  by (auto simp: fork_step_def call_defs unhandled_record_def LOG_INFO_def LOG_ERR_def
      split: if_splits)

lemma unhandled_background_setup:
  "background_setup e s = Inl (s', st) \<Longrightarrow> unhandled_record \<in> set (calls s') \<Longrightarrow> unhandled_record \<in> set (calls s)"
  "background_setup e s = Inr s'' \<Longrightarrow> unhandled_record \<in> set (calls s'') \<Longrightarrow> unhandled_record \<in> set (calls s)"
  by (auto simp: background_setup_def call_defs Let_def unhandled_record_def LOG_INFO_def
      LOG_ERR_def split: if_splits)

lemma unhandled_daemonize:
  "daemonize argv0 e = Inl (s', st) \<Longrightarrow> unhandled_record \<notin> set (calls s')"
  "daemonize argv0 e = Inr s'' \<Longrightarrow> unhandled_record \<notin> set (calls s'')"
  using unhandled_fork_step [of e "start_logging argv0"] unhandled_background_setup [of e]
    unhandled_start_logging [of argv0]
  by (auto simp: daemonize_def split: sum.splits)

lemma unhandled_iterations:
  "unhandled_record \<in> set (calls ((log_time_body e ^^ n) s)) \<Longrightarrow> unhandled_record \<in> set (calls s)"
  by (induction n) (auto simp: calls_log_time_body unhandled_record_def)

lemma unhandled_progress: "unhandled_record \<notin> set (calls (progress argv0 e n))"
proof (cases "daemonize argv0 e")
  case (Inl r)
  then show ?thesis
    using unhandled_daemonize(1) [of argv0 e "fst r" "snd r"] by (simp add: progress_def)
next
  case (Inr s)
  then show ?thesis
    using unhandled_daemonize(2) [of argv0 e s] unhandled_iterations [where e = e and n = n and s = s]
    by (auto simp: progress_def)
qed

lemma unhandled_reachable:
  "reachable argv0 e s \<Longrightarrow> unhandled_record \<notin> set (calls s)"
proof (induction rule: reachable.induct)
  case (in_main s n)
  then show ?case
    using unhandled_progress [of argv0 e n] set_mono_prefix by blast
next
  case (in_handler s pt k r s')
  from in_handler.hyps(1) have "set (handled (calls s)) \<subseteq> {SIGHUP, SIGTERM}"
    by (rule handled_reachable)
  moreover from in_handler.hyps(2) have "k \<in> set (handled (calls s))" and "r = signal_handler pt k s"
    by (auto simp: deliver_def split: if_splits)
  ultimately have "unhandled_record \<notin> set (calls (final_state r))"
    using in_handler.IH
    by (auto simp: signal_handler_def from_handler_def call_defs unhandled_record_def
        SIGHUP_def SIGTERM_def)
  with in_handler.hyps(4) show ?case
    using set_mono_prefix by blast
qed

text \<open>
  C10: in every state the process can be in, under every environment and wherever the
  signal finds the interrupted code, a signal that the kernel hands to
  \<^verbatim>\<open>_signal_handler\<close> is \<open>SIGHUP\<close> or \<open>SIGTERM\<close>, because lines 159 and 160 are the only
  calls of \<^verbatim>\<open>signal\<close>. The handler then takes its first or its second case, never the
  default case that writes \<^verbatim>\<open>received unhandled signal.\<close>
\<close>

theorem default_branch_unreachable:
  assumes "reachable argv0 e s" and "deliver pt k s = Some r"
  shows "(k = SIGHUP \<and> r = Returned s \<or>
          k = SIGTERM \<and>
          r = (if holds_lock pt then Blocked s
               else Exited (closelog (syslog LOG_INFO ''received SIGTERM - exiting.'' s)) OK)) \<and>
         r \<noteq> Returned (syslog LOG_INFO ''received unhandled signal.'' s) \<and>
         unhandled_record \<notin> set (calls (final_state r))"
proof -
  from assms(1) have "set (handled (calls s)) \<subseteq> {SIGHUP, SIGTERM}"
    by (rule handled_reachable)
  moreover from assms(2) have "k \<in> set (handled (calls s))" and r: "r = signal_handler pt k s"
    by (auto simp: deliver_def split: if_splits)
  ultimately have k: "k = SIGHUP \<or> k = SIGTERM" by auto
  from assms(1) have u: "unhandled_record \<notin> set (calls s)"
    by (rule unhandled_reachable)
  from k r have c: "k = SIGHUP \<and> r = Returned s \<or>
      k = SIGTERM \<and>
      r = (if holds_lock pt then Blocked s
           else Exited (closelog (syslog LOG_INFO ''received SIGTERM - exiting.'' s)) OK)"
    by (auto simp: signal_handler_def from_handler_def SIGHUP_def SIGTERM_def)
  from c syslog_changes [of LOG_INFO "''received unhandled signal.''" s]
  have d: "r \<noteq> Returned (syslog LOG_INFO ''received unhandled signal.'' s)"
    by (auto split: if_splits)
  from c u have "unhandled_record \<notin> set (calls (final_state r))"
    by (auto simp: call_defs unhandled_record_def split: if_splits)
  with c d show ?thesis by blast
qed

theorem default_branch_unreachable_witness:
  "reachable ''./sampled'' (sample_env 0 4242 0) sample_running \<and>
   deliver Between 15 sample_running =
     Some (Exited (sample_running\<lparr>calls := calls sample_running @
             [Syslog 6 ''received SIGTERM - exiting.'', Closelog]\<rparr>) 0) \<and>
   Exited (sample_running\<lparr>calls := calls sample_running @
             [Syslog 6 ''received SIGTERM - exiting.'', Closelog]\<rparr>) 0
     \<noteq> Returned (syslog 6 ''received unhandled signal.'' sample_running) \<and>
   unhandled_record \<notin> set (calls sample_running @
             [Syslog 6 ''received SIGTERM - exiting.'', Closelog])"
proof -
  have "progress ''./sampled'' (sample_env 0 4242 0) 0 = sample_running"
    by (simp add: progress_def daemonize_sample)
  then have "prefix (calls sample_running) (calls (progress ''./sampled'' (sample_env 0 4242 0) 0))"
    by simp
  then have h1: "reachable ''./sampled'' (sample_env 0 4242 0) sample_running"
    by (rule reachable.in_main)
  have h2: "deliver Between 15 sample_running =
     Some (Exited (sample_running\<lparr>calls := calls sample_running @
             [Syslog 6 ''received SIGTERM - exiting.'', Closelog]\<rparr>) 0)"
    by (simp add: deliver_def sample_running_def signal_handler_def from_handler_def call_defs
        SIGHUP_def SIGTERM_def LOG_INFO_def OK_def)
  show ?thesis
    using h1 h2 default_branch_unreachable [OF h1 h2]
    by (simp add: LOG_INFO_def)
qed

end
